theory Spec2Isabelle
  imports Complex_Main "HOL-Library.Word" "HOL-Library.AList"
begin

section \<open>Geometry shared by the components\<close>

text \<open>
  A JavaScript \<open>number\<close> that holds a coordinate or a clock reading is modelled as a
  \<open>real\<close>: \<open>performance.now()\<close> never yields NaN or an infinity, and the comparison
  \<open>now - last > interval\<close> on doubles implies the same comparison on the exact values
  (rounding is monotone and the intervals 100 and 200 are representable).
\<close>

record Vector3 =
  vx :: real
  vy :: real
  vz :: real

record Vector2 =
  px :: real
  pz :: real

section \<open>GameRenderer: the per-frame callback\<close>

text \<open>
  The refs of \<open>GameRenderer\<close>, in the version of the component that takes a game client.
  \<open>cameraController.current\<close> and \<open>multiplayerManager.current\<close> are objects of the modules
  \<open>./core/CameraController\<close> and \<open>./core/MultiplayerManager\<close>; the frame callback only tests
  whether they are set and calls their methods, so the model keeps whether the ref is set and
  records every call as an effect.
\<close>

record GameRenderer =
  cameraController :: bool
  multiplayerManager :: bool
  lastUpdateTime :: real
  lastEnemyUpdateTime :: real

definition updateInterval :: real where
  "updateInterval = 100"

definition enemyUpdateInterval :: real where
  "enemyUpdateInterval = 200"

text \<open>What one frame reads from its surroundings: the clock, the frame's \<open>delta\<close>, and the
  local player's position, rotation and trail (absent when \<open>game.getPlayer()\<close> is).\<close>

record tick =
  now :: real
  delta :: real
  playerPos :: "Vector3 option"
  playerRotation :: "real option"
  trails :: "Vector3 list"

text \<open>A position as it travels on the wire, \<open>{x, y, z, rotation}\<close>; the rotation is absent
  when the sender had none.\<close>

record Position =
  pos_x :: real
  pos_y :: real
  pos_z :: real
  pos_rotation :: "real option"

text \<open>The calls a frame makes on its collaborators, in the order it makes them.\<close>

datatype effect =
    CameraUpdate real
  | SetLocalPlayerPosition Vector3
  | OnPositionUpdate Vector3 "Vector2 list"
  | GameClientUpdatePosition Position
  | OnEnemyPositionsUpdate
  | MultiplayerManagerUpdate real

definition trailPoint :: "Vector3 \<Rightarrow> Vector2" where
  "trailPoint point = \<lparr>px = vx point, pz = vz point\<rparr>"

definition useFrame :: "GameRenderer \<Rightarrow> tick \<Rightarrow> GameRenderer \<times> effect list" where
  "useFrame r t =
    (let camera = (if cameraController r then [CameraUpdate (delta t)] else []);
         managerUpdate = (if multiplayerManager r then [MultiplayerManagerUpdate (delta t)] else [])
     in case playerPos t of
          None \<Rightarrow> (r, camera @ managerUpdate)
        | Some pos \<Rightarrow>
            let setLocal = (if multiplayerManager r then [SetLocalPlayerPosition pos] else []);
                onPos = [OnPositionUpdate pos (map trailPoint (trails t))];
                send = (now t - lastUpdateTime r > updateInterval);
                r1 = (if send then r\<lparr>lastUpdateTime := now t\<rparr> else r);
                sent = (if send
                        then [GameClientUpdatePosition
                                \<lparr>pos_x = vx pos, pos_y = vy pos, pos_z = vz pos,
                                 pos_rotation = playerRotation t\<rparr>]
                        else []);
                refresh = (now t - lastEnemyUpdateTime r1 > enemyUpdateInterval);
                r2 = (if refresh then r1\<lparr>lastEnemyUpdateTime := now t\<rparr> else r1);
                enemies = (if refresh \<and> multiplayerManager r then [OnEnemyPositionsUpdate] else [])
            in (r2, camera @ setLocal @ onPos @ sent @ enemies @ managerUpdate))"

text \<open>A run of the render loop: the frames in order, each with the effects it produced.\<close>

fun runFrames :: "GameRenderer \<Rightarrow> tick list \<Rightarrow> (tick \<times> effect list) list" where
  "runFrames r [] = []"
| "runFrames r (t # ts) = (t, snd (useFrame r t)) # runFrames (fst (useFrame r t)) ts"

fun isSend :: "effect \<Rightarrow> bool" where
  "isSend (GameClientUpdatePosition m) = True"
| "isSend e = False"

fun isEnemyRefresh :: "effect \<Rightarrow> bool" where
  "isEnemyRefresh OnEnemyPositionsUpdate = True"
| "isEnemyRefresh e = False"

fun isManagerUpdate :: "effect \<Rightarrow> bool" where
  "isManagerUpdate (MultiplayerManagerUpdate d) = True"
| "isManagerUpdate e = False"

text \<open>The clock readings of the frames in which an effect of the given kind occurred, one
  entry per occurrence.\<close>

fun timesOf :: "(effect \<Rightarrow> bool) \<Rightarrow> (tick \<times> effect list) list \<Rightarrow> real list" where
  "timesOf k [] = []"
| "timesOf k ((t, es) # rest) = map (\<lambda>e. now t) (filter k es) @ timesOf k rest"

text \<open>\<open>spaced d l ts\<close>: starting from the time \<open>l\<close>, every time in \<open>ts\<close> is at least \<open>d\<close>
  after the one before it.\<close>

fun spaced :: "real \<Rightarrow> real \<Rightarrow> real list \<Rightarrow> bool" where
  "spaced d l [] = True"
| "spaced d l (t # ts) = (d \<le> t - l \<and> spaced d t ts)"

text \<open>The same with a strict bound, which is what the code's strict comparison gives.\<close>

fun spacedStrict :: "real \<Rightarrow> real \<Rightarrow> real list \<Rightarrow> bool" where
  "spacedStrict d l [] = True"
| "spacedStrict d l (t # ts) = (d < t - l \<and> spacedStrict d t ts)"

definition inWindow :: "real \<Rightarrow> real \<Rightarrow> real \<Rightarrow> bool" where
  "inWindow w d s = (w \<le> s \<and> s \<le> w + d)"

text \<open>Two renderer states agree on the minimap clock (resp. the broadcast clock) when the
  refs that clock reads are equal.\<close>

definition sameEnemyClock :: "GameRenderer \<Rightarrow> GameRenderer \<Rightarrow> bool" where
  "sameEnemyClock r r' =
     (lastEnemyUpdateTime r = lastEnemyUpdateTime r' \<and> multiplayerManager r = multiplayerManager r')"

definition sameSendClock :: "GameRenderer \<Rightarrow> GameRenderer \<Rightarrow> bool" where
  "sameSendClock r r' = (lastUpdateTime r = lastUpdateTime r')"

text \<open>A mounted renderer and frames to run it on.\<close>

definition mounted :: GameRenderer where
  "mounted = \<lparr>cameraController = True, multiplayerManager = True,
              lastUpdateTime = 0, lastEnemyUpdateTime = 0\<rparr>"

definition frameAt :: "real \<Rightarrow> Vector3 option \<Rightarrow> tick" where
  "frameAt n p = \<lparr>now = n, delta = 16 / 1000, playerPos = p, playerRotation = Some 0, trails = []\<rparr>"

definition origin :: Vector3 where
  "origin = \<lparr>vx = 0, vy = 0, vz = 0\<rparr>"

section \<open>JavaScript strings\<close>

text \<open>
  A JavaScript string is a sequence of UTF-16 code units; \<open>length\<close> and the \<open>maxLength\<close>
  of an input element count code units. \<open>String.prototype.trim\<close> removes the white space
  and line terminators of ECMAScript from both ends.
\<close>

type_synonym jsstring = "16 word list"

definition whiteSpace :: "16 word list" where
  "whiteSpace =
     [0x0009, 0x000A, 0x000B, 0x000C, 0x000D, 0x0020, 0x00A0, 0x1680,
      0x2000, 0x2001, 0x2002, 0x2003, 0x2004, 0x2005, 0x2006, 0x2007, 0x2008, 0x2009, 0x200A,
      0x2028, 0x2029, 0x202F, 0x205F, 0x3000, 0xFEFF]"

definition isWhiteSpace :: "16 word \<Rightarrow> bool" where
  "isWhiteSpace c = (c \<in> set whiteSpace)"

definition trim :: "jsstring \<Rightarrow> jsstring" where
  "trim s = rev (dropWhile isWhiteSpace (rev (dropWhile isWhiteSpace s)))"

section \<open>StartMenu\<close>

text \<open>
  The menu's state is the text of the input, \<open>playerName\<close>. \<open>onChange\<close> stores the value of
  the input element; the element carries \<open>maxLength={15}\<close>, so the values a user can enter
  are those of \<open>withinMaxLength\<close>. \<open>handleSubmit\<close> returns the argument of its call of
  \<open>onStart\<close>, or \<open>None\<close> when it makes no call.
\<close>

record StartMenu =
  menu_playerName :: jsstring

definition maxLength :: nat where
  "maxLength = 15"

definition withinMaxLength :: "jsstring \<Rightarrow> bool" where
  "withinMaxLength v = (length v \<le> maxLength)"

definition onChange :: "jsstring \<Rightarrow> StartMenu \<Rightarrow> StartMenu" where
  "onChange v m = m\<lparr>menu_playerName := v\<rparr>"

definition handleSubmit :: "StartMenu \<Rightarrow> jsstring option" where
  "handleSubmit m =
     (if trim (menu_playerName m) \<noteq> [] then Some (trim (menu_playerName m)) else None)"

section \<open>GameScene: starting the game\<close>

text \<open>
  This is \<open>handleGameStart\<close> in the version of \<open>GameScene\<close> that connects a game client
  first. \<open>GameClient\<close> and \<open>TronGame\<close> are classes of the modules \<open>../network/gameClient\<close>
  and \<open>./core/TronGame\<close>. What the function needs of them is taken from the surroundings: whether
  \<open>connect(name)\<close> resolves (with the player id the server assigned) or rejects, and
  whether \<open>new TronGame(...)\<close> followed by \<open>start(name)\<close> yields a game or throws. The
  \<open>await\<close> is taken as one step: nothing else runs between the call of \<open>connect\<close> and its
  outcome.
\<close>

datatype jsError = JsError string

record GameClient =
  client_playerId :: "string option"

record TronGame =
  gamePlayerName :: jsstring
  gameArenaSize :: real

record surroundings =
  connect :: "jsstring \<Rightarrow> jsError + string"
  startTronGame :: "jsstring \<Rightarrow> jsError + TronGame"

record GameScene =
  gameStarted :: bool
  playerName :: "jsstring option"
  arenaSize :: real
  scene :: bool
  game :: "TronGame option"
  gameClient :: "GameClient option"
  consoleErrors :: "jsError list"

definition newGameClient :: GameClient where
  "newGameClient = \<lparr>client_playerId = None\<rparr>"

definition initialGameScene :: GameScene where
  "initialGameScene =
     \<lparr>gameStarted = False, playerName = None, arenaSize = 500, scene = True,
      game = None, gameClient = None, consoleErrors = []\<rparr>"

definition handleGameStart :: "surroundings \<Rightarrow> GameScene \<Rightarrow> jsstring \<Rightarrow> GameScene" where
  "handleGameStart w s name =
     (let s0 = s\<lparr>gameClient := Some newGameClient\<rparr>
      in case connect w name of
           Inl err \<Rightarrow> s0\<lparr>consoleErrors := consoleErrors s0 @ [err]\<rparr>
         | Inr pid \<Rightarrow>
             let s1 = s0\<lparr>gameClient := Some \<lparr>client_playerId = Some pid\<rparr>,
                         playerName := Some name, gameStarted := True\<rparr>
             in if scene s1
                then (case startTronGame w name of
                        Inl err \<Rightarrow> s1\<lparr>consoleErrors := consoleErrors s1 @ [err]\<rparr>
                      | Inr g \<Rightarrow> s1\<lparr>game := Some g, arenaSize := gameArenaSize g\<rparr>)
                else s1)"

text \<open>Surroundings in which the server refuses the connection, and a name to submit.\<close>

definition refusing :: surroundings where
  "refusing =
     \<lparr>connect = (\<lambda>n. Inl (JsError ''connection refused'')),
      startTronGame = (\<lambda>n. Inr \<lparr>gamePlayerName = n, gameArenaSize = 500\<rparr>)\<rparr>"

definition accepting :: surroundings where
  "accepting =
     \<lparr>connect = (\<lambda>n. Inr ''p1''),
      startTronGame = (\<lambda>n. Inr \<lparr>gamePlayerName = n, gameArenaSize = 500\<rparr>)\<rparr>"

definition flynn :: jsstring where
  "flynn = [0x46, 0x6C, 0x79, 0x6E, 0x6E]"

section \<open>PerformanceManager\<close>

text \<open>
  The frame rates and the resolution scale are JavaScript numbers that callers can set
  (\<open>setTargetFps\<close>, \<open>setResolutionScale\<close>), so they are modelled with the values a
  \<open>number\<close> has besides the finite ones: NaN and the two infinities. Finite arithmetic is
  exact (the rounding of doubles and the sign of zero are left out); the operations on NaN
  and the infinities follow IEEE 754 and \<open>Math.max\<close>/\<open>Math.min\<close>, which return NaN as
  soon as one argument is NaN.
\<close>

datatype jsnum = NaN | NegInf | Fin real | PosInf

fun js_lt :: "jsnum \<Rightarrow> jsnum \<Rightarrow> bool" where
  "js_lt (Fin a) (Fin b) = (a < b)"
| "js_lt NegInf (Fin b) = True"
| "js_lt NegInf PosInf = True"
| "js_lt (Fin a) PosInf = True"
| "js_lt a b = False"

definition js_gt :: "jsnum \<Rightarrow> jsnum \<Rightarrow> bool" where
  "js_gt a b = js_lt b a"

definition js_max :: "jsnum \<Rightarrow> jsnum \<Rightarrow> jsnum" where
  "js_max a b = (if a = NaN \<or> b = NaN then NaN else if js_lt a b then b else a)"

definition js_min :: "jsnum \<Rightarrow> jsnum \<Rightarrow> jsnum" where
  "js_min a b = (if a = NaN \<or> b = NaN then NaN else if js_lt a b then a else b)"

fun js_neg :: "jsnum \<Rightarrow> jsnum" where
  "js_neg NaN = NaN"
| "js_neg NegInf = PosInf"
| "js_neg (Fin a) = Fin (- a)"
| "js_neg PosInf = NegInf"

fun js_abs :: "jsnum \<Rightarrow> jsnum" where
  "js_abs NaN = NaN"
| "js_abs NegInf = PosInf"
| "js_abs (Fin a) = Fin \<bar>a\<bar>"
| "js_abs PosInf = PosInf"

fun js_add :: "jsnum \<Rightarrow> jsnum \<Rightarrow> jsnum" where
  "js_add NaN b = NaN"
| "js_add a NaN = NaN"
| "js_add (Fin a) (Fin b) = Fin (a + b)"
| "js_add PosInf NegInf = NaN"
| "js_add NegInf PosInf = NaN"
| "js_add PosInf b = PosInf"
| "js_add a PosInf = PosInf"
| "js_add NegInf b = NegInf"
| "js_add a NegInf = NegInf"

definition js_sub :: "jsnum \<Rightarrow> jsnum \<Rightarrow> jsnum" where
  "js_sub a b = js_add a (js_neg b)"

text \<open>The sign of a number that is not NaN, as \<open>-1\<close>, \<open>0\<close> or \<open>1\<close>, and the infinity of a sign.\<close>

fun js_sign :: "jsnum \<Rightarrow> real" where
  "js_sign NaN = 0"
| "js_sign NegInf = - 1"
| "js_sign (Fin a) = sgn a"
| "js_sign PosInf = 1"

definition js_inf :: "real \<Rightarrow> jsnum" where
  "js_inf s = (if s = 0 then NaN else if s < 0 then NegInf else PosInf)"

fun js_mul :: "jsnum \<Rightarrow> jsnum \<Rightarrow> jsnum" where
  "js_mul NaN b = NaN"
| "js_mul a NaN = NaN"
| "js_mul (Fin a) (Fin b) = Fin (a * b)"
| "js_mul a b = js_inf (js_sign a * js_sign b)"

fun js_div :: "jsnum \<Rightarrow> jsnum \<Rightarrow> jsnum" where
  "js_div NaN b = NaN"
| "js_div a NaN = NaN"
| "js_div (Fin a) (Fin b) = (if b = 0 then js_inf (sgn a) else Fin (a / b))"
| "js_div (Fin a) b = Fin 0"
| "js_div a (Fin b) = js_inf (js_sign a * (if b < 0 then - 1 else 1))"
| "js_div a b = NaN"

text \<open>What the class reads from the browser: \<open>performance.now()\<close>, whether
  \<open>window.gameRenderer\<close> is set, and \<open>window.devicePixelRatio\<close>.\<close>

record browser =
  perfNow :: real
  gameRenderer :: bool
  devicePixelRatio :: jsnum

record PerformanceManager =
  lastFpsTime :: real
  frameCount :: nat
  currentFps :: jsnum
  targetFps :: jsnum
  resolutionScale :: jsnum
  fpsHistory :: "jsnum list"
  isEnabled :: bool
  lastResolutionChangeTime :: real
  setPixelRatioCalls :: "jsnum list"

definition MIN_RESOLUTION_SCALE :: jsnum where
  "MIN_RESOLUTION_SCALE = Fin (5 / 10)"

definition FPS_HISTORY_SIZE :: nat where
  "FPS_HISTORY_SIZE = 20"

definition MIN_CHANGE_INTERVAL :: real where
  "MIN_CHANGE_INTERVAL = 2000"

text \<open>\<open>window.devicePixelRatio || 1\<close>: zero and NaN are falsy.\<close>

definition pixelRatio :: "browser \<Rightarrow> jsnum" where
  "pixelRatio b =
     (if devicePixelRatio b = NaN \<or> devicePixelRatio b = Fin 0 then Fin 1 else devicePixelRatio b)"

definition applyResolutionScale :: "browser \<Rightarrow> PerformanceManager \<Rightarrow> PerformanceManager" where
  "applyResolutionScale b pm =
     (if \<not> gameRenderer b then pm
      else pm\<lparr>setPixelRatioCalls :=
                 setPixelRatioCalls pm @ [js_mul (pixelRatio b) (resolutionScale pm)]\<rparr>)"

text \<open>The state after the field initialisers and the loop of the constructor; the
  constructor then applies the scale, at once or from its timer.\<close>

definition newPerformanceManager :: PerformanceManager where
  "newPerformanceManager =
     \<lparr>lastFpsTime = 0, frameCount = 0, currentFps = Fin 60, targetFps = Fin 60,
      resolutionScale = Fin 1, fpsHistory = replicate 20 (Fin 60), isEnabled = True,
      lastResolutionChangeTime = 0, setPixelRatioCalls = []\<rparr>"

text \<open>\<open>fpsHistory.slice(-10)\<close> and the average over it.\<close>

definition sliceLast :: "nat \<Rightarrow> 'a list \<Rightarrow> 'a list" where
  "sliceLast n xs = drop (length xs - n) xs"

definition average :: "jsnum list \<Rightarrow> jsnum" where
  "average fs = js_div (foldl js_add (Fin 0) fs) (Fin (real (length fs)))"

definition update :: "browser \<Rightarrow> PerformanceManager \<Rightarrow> PerformanceManager" where
  "update b pm =
     (if \<not> isEnabled pm then pm
      else
        let pm1 = pm\<lparr>frameCount := frameCount pm + 1\<rparr>
        in if perfNow b - lastFpsTime pm1 \<ge> 1000
           then
             let pm2 = pm1\<lparr>currentFps := Fin (real (frameCount pm1)), frameCount := 0,
                            lastFpsTime := perfNow b\<rparr>;
                 pushed = fpsHistory pm2 @ [currentFps pm2];
                 pm3 = pm2\<lparr>fpsHistory :=
                             (if length pushed > FPS_HISTORY_SIZE then tl pushed else pushed)\<rparr>
             in if perfNow b - lastResolutionChangeTime pm3 < MIN_CHANGE_INTERVAL then pm3
                else
                  let avgFps = average (sliceLast 10 (fpsHistory pm3))
                  in if js_lt avgFps (Fin 30)
                     then
                       let reduction = (if js_lt avgFps (Fin 20) then Fin (85 / 100) else Fin (95 / 100));
                           newScale = js_max (js_mul (resolutionScale pm3) reduction) MIN_RESOLUTION_SCALE
                       in if js_gt (js_abs (js_sub newScale (resolutionScale pm3))) (Fin (2 / 100))
                          then (applyResolutionScale b (pm3\<lparr>resolutionScale := newScale\<rparr>))
                                 \<lparr>lastResolutionChangeTime := perfNow b\<rparr>
                          else pm3
                     else if js_gt avgFps (Fin 55) \<and> js_lt (resolutionScale pm3) (Fin 1)
                     then
                       let newScale = js_min (js_mul (resolutionScale pm3) (Fin (102 / 100))) (Fin 1)
                       in if js_gt (js_sub newScale (resolutionScale pm3)) (Fin (1 / 100))
                          then (applyResolutionScale b (pm3\<lparr>resolutionScale := newScale\<rparr>))
                                 \<lparr>lastResolutionChangeTime := perfNow b\<rparr>
                          else pm3
                     else pm3
           else pm1)"

definition setTargetFps :: "jsnum \<Rightarrow> PerformanceManager \<Rightarrow> PerformanceManager" where
  "setTargetFps fps pm = pm\<lparr>targetFps := fps\<rparr>"

definition setEnabled :: "browser \<Rightarrow> bool \<Rightarrow> PerformanceManager \<Rightarrow> PerformanceManager" where
  "setEnabled b enabled pm =
     (let pm1 = pm\<lparr>isEnabled := enabled\<rparr>
      in if enabled then pm1\<lparr>fpsHistory := replicate FPS_HISTORY_SIZE (targetFps pm1)\<rparr>
         else applyResolutionScale b (pm1\<lparr>resolutionScale := Fin 1\<rparr>))"

definition setResolutionScale :: "browser \<Rightarrow> jsnum \<Rightarrow> PerformanceManager \<Rightarrow> PerformanceManager" where
  "setResolutionScale b scale pm =
     (applyResolutionScale b
        (pm\<lparr>resolutionScale := js_max MIN_RESOLUTION_SCALE (js_min (Fin 1) scale)\<rparr>))
       \<lparr>lastResolutionChangeTime := perfNow b\<rparr>"

text \<open>The calls the class offers, and a sequence of them, each with what the browser shows
  at the time of the call. \<open>Resize\<close> is the window's resize event, which applies the scale
  again.\<close>

datatype pmCall =
    Update
  | SetTargetFps jsnum
  | SetEnabled bool
  | SetResolutionScale jsnum
  | Resize

fun pmStep :: "PerformanceManager \<Rightarrow> browser \<times> pmCall \<Rightarrow> PerformanceManager" where
  "pmStep pm (b, Update) = update b pm"
| "pmStep pm (b, SetTargetFps fps) = setTargetFps fps pm"
| "pmStep pm (b, SetEnabled enabled) = setEnabled b enabled pm"
| "pmStep pm (b, SetResolutionScale scale) = setResolutionScale b scale pm"
| "pmStep pm (b, Resize) = applyResolutionScale b pm"

definition pmRun :: "PerformanceManager \<Rightarrow> (browser \<times> pmCall) list \<Rightarrow> PerformanceManager" where
  "pmRun pm calls = foldl pmStep pm calls"

fun inRange :: "jsnum \<Rightarrow> bool" where
  "inRange (Fin s) = (5 / 10 \<le> s \<and> s \<le> 1)"
| "inRange s = False"

fun scaleIsNumber :: "browser \<times> pmCall \<Rightarrow> bool" where
  "scaleIsNumber (b, SetResolutionScale scale) = (scale \<noteq> NaN)"
| "scaleIsNumber c = True"

definition browserAt :: "real \<Rightarrow> browser" where
  "browserAt n = \<lparr>perfNow = n, gameRenderer = True, devicePixelRatio = Fin 2\<rparr>"

section \<open>MultiplayerManager and the handlers of the network messages\<close>

text \<open>
  The handlers that \<open>GameRenderer\<close> registers on the game client call the methods of
  \<open>MultiplayerManager\<close>, a class of the module \<open>./core/MultiplayerManager\<close>. The manager is
  modelled from its contract, the handlers from their code. Player ids are strings that are
  only compared.
\<close>

text \<open>Modelled from the spec: the data of a \<open>RemotePlayer\<close>, whose source is missing: the "most
  recent network-reported values" and the "interpolated values actually drawn".\<close>

record RemotePlayer =
  targetPosition :: Vector3
  targetRotation :: real
  renderedPosition :: Vector3
  renderedRotation :: real

text \<open>Modelled from the spec: the state of \<open>MultiplayerManager\<close>, whose source is missing: the
  id it excludes, the registry of remote players in the order they were added, and the local
  player's position.\<close>

record MultiplayerManager =
  localPlayerId :: "string option"
  players :: "(string \<times> RemotePlayer) list"
  localPlayerPosition :: "Vector3 option"

definition positionVector :: "Position \<Rightarrow> Vector3" where
  "positionVector p = \<lparr>vx = pos_x p, vy = pos_y p, vz = pos_z p\<rparr>"

definition rotationOr :: "real \<Rightarrow> real option \<Rightarrow> real" where
  "rotationOr d rot = (case rot of None \<Rightarrow> d | Some a \<Rightarrow> a)"

text \<open>Modelled from the spec: the constructor of \<open>MultiplayerManager\<close>, whose source is
  missing. A new manager has no remote players and excludes no id yet.\<close>

definition newMultiplayerManager :: MultiplayerManager where
  "newMultiplayerManager = \<lparr>localPlayerId = None, players = [], localPlayerPosition = None\<rparr>"

text \<open>Modelled from the spec: \<open>MultiplayerManager.setLocalPlayerId\<close>, whose source is missing.
  It "establishes which id is excluded from the remote registry".\<close>

definition setLocalPlayerId :: "string \<Rightarrow> MultiplayerManager \<Rightarrow> MultiplayerManager" where
  "setLocalPlayerId i m = m\<lparr>localPlayerId := Some i\<rparr>"

text \<open>Modelled from the spec: a \<open>RemotePlayer\<close> as \<open>MultiplayerManager\<close> creates it, whose source
  is missing. It is drawn where it was reported; without a reported position it starts at
  the origin.\<close>

definition newRemotePlayer :: "Position option \<Rightarrow> RemotePlayer" where
  "newRemotePlayer initialPosition =
     (case initialPosition of
        None \<Rightarrow> \<lparr>targetPosition = \<lparr>vx = 0, vy = 0, vz = 0\<rparr>, targetRotation = 0,
                  renderedPosition = \<lparr>vx = 0, vy = 0, vz = 0\<rparr>, renderedRotation = 0\<rparr>
      | Some p \<Rightarrow> \<lparr>targetPosition = positionVector p, targetRotation = rotationOr 0 (pos_rotation p),
                    renderedPosition = positionVector p, renderedRotation = rotationOr 0 (pos_rotation p)\<rparr>)"

text \<open>Modelled from the spec: \<open>MultiplayerManager.addPlayer\<close>, whose source is missing. It
  "inserts a new RemotePlayer; idempotent if id already present (re-add updates position
  rather than duplicating)", and "self is never added as a remote player".\<close>

definition addPlayer :: "string \<Rightarrow> Position option \<Rightarrow> MultiplayerManager \<Rightarrow> MultiplayerManager" where
  "addPlayer i initialPosition m =
     (if localPlayerId m = Some i then m
      else case map_of (players m) i of
             None \<Rightarrow> m\<lparr>players := AList.update i (newRemotePlayer initialPosition) (players m)\<rparr>
           | Some rp \<Rightarrow>
               (case initialPosition of
                  None \<Rightarrow> m
                | Some p \<Rightarrow>
                    m\<lparr>players :=
                        AList.update i
                          (rp\<lparr>targetPosition := positionVector p,
                              targetRotation := rotationOr (targetRotation rp) (pos_rotation p)\<rparr>)
                          (players m)\<rparr>))"

text \<open>Modelled from the spec: \<open>MultiplayerManager.removePlayer\<close>, whose source is missing. It
  "deletes the RemotePlayer"; "no-op if absent".\<close>

definition removePlayer :: "string \<Rightarrow> MultiplayerManager \<Rightarrow> MultiplayerManager" where
  "removePlayer i m = m\<lparr>players := AList.delete i (players m)\<rparr>"

text \<open>Modelled from the spec: \<open>MultiplayerManager.updatePlayerPosition\<close>, whose source is
  missing. It "updates targetPosition/targetRotation for an existing RemotePlayer; if the id
  is unknown, the manager must create it", and "self is never added as a remote player, even
  if echoed back by the network layer".\<close>

definition updatePlayerPosition ::
    "string \<Rightarrow> Position \<Rightarrow> real option \<Rightarrow> MultiplayerManager \<Rightarrow> MultiplayerManager" where
  "updatePlayerPosition i p rot m =
     (if localPlayerId m = Some i then m
      else case map_of (players m) i of
             None \<Rightarrow>
               m\<lparr>players :=
                   AList.update i
                     \<lparr>targetPosition = positionVector p, targetRotation = rotationOr 0 rot,
                      renderedPosition = positionVector p, renderedRotation = rotationOr 0 rot\<rparr>
                     (players m)\<rparr>
           | Some rp \<Rightarrow>
               m\<lparr>players :=
                   AList.update i
                     (rp\<lparr>targetPosition := positionVector p,
                         targetRotation := rotationOr (targetRotation rp) rot\<rparr>)
                     (players m)\<rparr>)"

text \<open>Modelled from the spec: \<open>MultiplayerManager.getEnemyPositions\<close>, whose source is missing.
  It "produces a snapshot of all current remote players' ground-plane positions".\<close>

definition getEnemyPositions :: "MultiplayerManager \<Rightarrow> (string \<times> Vector2) list" where
  "getEnemyPositions m = map (\<lambda>(i, rp). (i, trailPoint (renderedPosition rp))) (players m)"

text \<open>Modelled from the spec: \<open>MultiplayerManager.clear\<close>, whose source is missing. It "removes
  all remote players".\<close>

definition clear :: "MultiplayerManager \<Rightarrow> MultiplayerManager" where
  "clear m = m\<lparr>players := []\<rparr>"

subsection \<open>The effect of GameRenderer and its handlers\<close>

text \<open>\<open>gameClient.getPlayerId()\<close> is a string or absent. The effect creates the manager and
  hands it \<open>gameClient.getPlayerId() || ''\<close> as the local id.\<close>

definition localIdOf :: "string option \<Rightarrow> string" where
  "localIdOf clientId = (case clientId of None \<Rightarrow> [] | Some i \<Rightarrow> i)"

definition mountManager :: "string option \<Rightarrow> MultiplayerManager" where
  "mountManager clientId = setLocalPlayerId (localIdOf clientId) newMultiplayerManager"

text \<open>An entry of the snapshot of \<open>game_state\<close>: its position may be missing, which the
  handler tests.\<close>

record PlayerEntry =
  entryPosition :: "Position option"

datatype NetworkMessage =
    PlayerJoined string
  | PlayerLeft string
  | PlayerMoved string Position
  | GameState "(string \<times> PlayerEntry) list"

definition onPlayerJoined :: "MultiplayerManager \<Rightarrow> string \<Rightarrow> MultiplayerManager" where
  "onPlayerJoined m player_id = addPlayer player_id None m"

definition onPlayerLeft :: "MultiplayerManager \<Rightarrow> string \<Rightarrow> MultiplayerManager" where
  "onPlayerLeft m player_id = removePlayer player_id m"

definition onPlayerMoved :: "MultiplayerManager \<Rightarrow> string \<Rightarrow> Position \<Rightarrow> MultiplayerManager" where
  "onPlayerMoved m player_id p = updatePlayerPosition player_id p (pos_rotation p) m"

text \<open>The body of the \<open>forEach\<close> of the \<open>game_state\<close> handler, and the handler: the entries of
  \<open>Object.entries(data.players)\<close> in order. \<open>clientId\<close> is what \<open>gameClient.getPlayerId()\<close>
  returns when the message arrives.\<close>

definition gameStateEntry ::
    "string option \<Rightarrow> MultiplayerManager \<Rightarrow> string \<times> PlayerEntry \<Rightarrow> MultiplayerManager" where
  "gameStateEntry clientId m entry =
     (if Some (fst entry) \<noteq> clientId \<and> entryPosition (snd entry) \<noteq> None
      then addPlayer (fst entry) (entryPosition (snd entry)) m
      else m)"

definition onGameState ::
    "string option \<Rightarrow> MultiplayerManager \<Rightarrow> (string \<times> PlayerEntry) list \<Rightarrow> MultiplayerManager" where
  "onGameState clientId m entries = foldl (gameStateEntry clientId) m entries"

fun handleMessage :: "MultiplayerManager \<Rightarrow> string option \<times> NetworkMessage \<Rightarrow> MultiplayerManager" where
  "handleMessage m (clientId, PlayerJoined i) = onPlayerJoined m i"
| "handleMessage m (clientId, PlayerLeft i) = onPlayerLeft m i"
| "handleMessage m (clientId, PlayerMoved i p) = onPlayerMoved m i p"
| "handleMessage m (clientId, GameState entries) = onGameState clientId m entries"

definition runMessages ::
    "MultiplayerManager \<Rightarrow> (string option \<times> NetworkMessage) list \<Rightarrow> MultiplayerManager" where
  "runMessages m msgs = foldl handleMessage m msgs"

text \<open>The ids in the registry.\<close>

definition registered :: "MultiplayerManager \<Rightarrow> string set" where
  "registered m = fst ` set (players m)"

text \<open>A position on the wire, for the examples.\<close>

definition wireAt :: "real \<Rightarrow> real \<Rightarrow> Position" where
  "wireAt a c = \<lparr>pos_x = a, pos_y = 0, pos_z = c, pos_rotation = Some 0\<rparr>"

section \<open>The trail and collision engine\<close>

text \<open>
  The trail and collision engine belongs to \<open>TronGame\<close>, a class of the module
  \<open>./core/TronGame\<close>; \<open>GameScene\<close> only constructs the game and reads the arena size from it.
  The engine is modelled from its contract. Points are on the ground plane; distances are
  compared by their squares.
\<close>

text \<open>Modelled from the spec: the state of the engine, whose source is missing: the arena's
  \<open>size\<close>, the trail and the current position of every player, the minimum distance between
  recorded points and the distance that counts as proximity.\<close>

record CollisionEngine =
  arena_size :: real
  trailOf :: "(string \<times> Vector2 list) list"
  positionOf :: "(string \<times> Vector2) list"
  minPointDistance :: real
  proximityRadius :: real

definition distance2 :: "Vector2 \<Rightarrow> Vector2 \<Rightarrow> real" where
  "distance2 p q = (px p - px q) * (px p - px q) + (pz p - pz q) * (pz p - pz q)"

text \<open>Modelled from the spec: the trail the engine tracks for a player, whose source is
  missing; a player it does not track has the empty trail.\<close>

definition ownTrail :: "CollisionEngine \<Rightarrow> string \<Rightarrow> Vector2 list" where
  "ownTrail e playerId = (case map_of (trailOf e) playerId of None \<Rightarrow> [] | Some tr \<Rightarrow> tr)"

text \<open>Modelled from the spec: the trails of the other players, whose source is missing.\<close>

definition otherTrails :: "CollisionEngine \<Rightarrow> string \<Rightarrow> Vector2 list list" where
  "otherTrails e playerId = map snd (filter (\<lambda>entry. fst entry \<noteq> playerId) (trailOf e))"

text \<open>Modelled from the spec: the current positions of the other players, whose source is
  missing.\<close>

definition otherPositions :: "CollisionEngine \<Rightarrow> string \<Rightarrow> Vector2 list" where
  "otherPositions e playerId = map snd (filter (\<lambda>entry. fst entry \<noteq> playerId) (positionOf e))"

text \<open>Modelled from the spec: the segments of a trail, "the line between consecutive points";
  "a trail with fewer than 2 points has no collidable segments".\<close>

fun segments :: "Vector2 list \<Rightarrow> (Vector2 \<times> Vector2) list" where
  "segments (p # q # rest) = (p, q) # segments (q # rest)"
| "segments tr = []"

text \<open>Modelled from the spec: \<open>recordPoint\<close>, whose source is missing. It "appends a point to a
  player's trail only if it differs from the last recorded point by more than a minimum
  distance epsilon".\<close>

definition recordPoint :: "string \<Rightarrow> Vector2 \<Rightarrow> CollisionEngine \<Rightarrow> CollisionEngine" where
  "recordPoint playerId point e =
     (let tr = ownTrail e playerId
      in if tr = [] \<or> distance2 point (last tr) > minPointDistance e * minPointDistance e
         then e\<lparr>trailOf := AList.update playerId (tr @ [point]) (trailOf e)\<rparr>
         else e)"

text \<open>Modelled from the spec: the engine's \<open>removePlayer\<close>, whose source is missing. It "discards
  a trail entirely".\<close>

definition discardTrail :: "string \<Rightarrow> CollisionEngine \<Rightarrow> CollisionEngine" where
  "discardTrail playerId e = e\<lparr>trailOf := AList.delete playerId (trailOf e)\<rparr>"

text \<open>Modelled from the spec: the parts of the "standard 2D line-segment intersection on the
  ground-plane projection" that \<open>checkCollision\<close> uses, whose source is missing. The side of
  the line through \<open>p\<close> and \<open>q\<close> on which \<open>r\<close> lies, as the sign of a cross product.\<close>

definition orientation :: "Vector2 \<Rightarrow> Vector2 \<Rightarrow> Vector2 \<Rightarrow> real" where
  "orientation p q r = (px q - px p) * (pz r - pz p) - (pz q - pz p) * (px r - px p)"

text \<open>Modelled from the spec: for a point \<open>r\<close> on the line through \<open>p\<close> and \<open>q\<close>, whether it lies
  between them.\<close>

definition onSegment :: "Vector2 \<Rightarrow> Vector2 \<Rightarrow> Vector2 \<Rightarrow> bool" where
  "onSegment p q r =
     (min (px p) (px q) \<le> px r \<and> px r \<le> max (px p) (px q)
      \<and> min (pz p) (pz q) \<le> pz r \<and> pz r \<le> max (pz p) (pz q))"

text \<open>Modelled from the spec: two orientations of opposite sign.\<close>

definition opposite :: "real \<Rightarrow> real \<Rightarrow> bool" where
  "opposite a b = (a < 0 \<and> 0 < b \<or> b < 0 \<and> 0 < a)"

text \<open>Modelled from the spec: the intersection test. Two segments meet when each straddles the
  line of the other, or an end point of one lies on the other.\<close>

definition segmentsIntersect :: "Vector2 \<times> Vector2 \<Rightarrow> Vector2 \<times> Vector2 \<Rightarrow> bool" where
  "segmentsIntersect s t =
     (let d1 = orientation (fst t) (snd t) (fst s);
          d2 = orientation (fst t) (snd t) (snd s);
          d3 = orientation (fst s) (snd s) (fst t);
          d4 = orientation (fst s) (snd s) (snd t)
      in opposite d1 d2 \<and> opposite d3 d4
         \<or> d1 = 0 \<and> onSegment (fst t) (snd t) (fst s)
         \<or> d2 = 0 \<and> onSegment (fst t) (snd t) (snd s)
         \<or> d3 = 0 \<and> onSegment (fst s) (snd s) (fst t)
         \<or> d4 = 0 \<and> onSegment (fst s) (snd s) (snd t))"

text \<open>Modelled from the spec: the tests of \<open>checkCollision\<close>, whose source is missing. First
  "(a) the arena boundary (\<open>|x| \<ge> size/2 or |z| \<ge> size/2\<close>)".\<close>

definition hitsBoundary :: "CollisionEngine \<Rightarrow> Vector2 \<Rightarrow> bool" where
  "hitsBoundary e c = (\<bar>px c\<bar> \<ge> arena_size e / 2 \<or> \<bar>pz c\<bar> \<ge> arena_size e / 2)"

text \<open>Modelled from the spec: the candidate's "projected path since the last recorded point";
  a mover without a recorded point has the candidate alone as its path.\<close>

definition projectedPath :: "CollisionEngine \<Rightarrow> string \<Rightarrow> Vector2 \<Rightarrow> Vector2 \<times> Vector2" where
  "projectedPath e playerId c =
     (if ownTrail e playerId = [] then (c, c) else (last (ownTrail e playerId), c))"

text \<open>Modelled from the spec: "(b) every segment of every trail currently tracked (including
  the mover's own trail, excluding the most recent segment still being formed to avoid false
  self-collision at the trail's growing tip)", here for the mover's own trail.\<close>

definition hitsOwnTrail :: "CollisionEngine \<Rightarrow> string \<Rightarrow> Vector2 \<Rightarrow> bool" where
  "hitsOwnTrail e playerId c =
     list_ex (segmentsIntersect (projectedPath e playerId c))
       (butlast (segments (ownTrail e playerId)))"

text \<open>Modelled from the spec: test (b) for the trails of the other players, all of whose
  segments count.\<close>

definition hitsOtherTrail :: "CollisionEngine \<Rightarrow> string \<Rightarrow> Vector2 \<Rightarrow> bool" where
  "hitsOtherTrail e playerId c =
     list_ex (\<lambda>tr. list_ex (segmentsIntersect (projectedPath e playerId c)) (segments tr))
       (otherTrails e playerId)"

text \<open>Modelled from the spec: "(c) proximity to any other player's current position".\<close>

definition hitsPlayer :: "CollisionEngine \<Rightarrow> string \<Rightarrow> Vector2 \<Rightarrow> bool" where
  "hitsPlayer e playerId c =
     list_ex (\<lambda>q. distance2 c q < proximityRadius e * proximityRadius e)
       (otherPositions e playerId)"

text \<open>Modelled from the spec: \<open>checkCollision\<close>, whose source is missing. It "returns true
  (fatal) on first hit; tie-break order is boundary, self-trail, other-trail,
  player-proximity".\<close>

definition checkCollision :: "CollisionEngine \<Rightarrow> string \<Rightarrow> Vector2 \<Rightarrow> bool" where
  "checkCollision e playerId c =
     (if hitsBoundary e c then True
      else if hitsOwnTrail e playerId c then True
      else if hitsOtherTrail e playerId c then True
      else hitsPlayer e playerId c)"

text \<open>A trail the engine tracks, seen from a mover: its own or another player's.\<close>

definition tracked :: "CollisionEngine \<Rightarrow> string \<Rightarrow> Vector2 list \<Rightarrow> bool" where
  "tracked e playerId tr = (tr = ownTrail e playerId \<or> tr \<in> set (otherTrails e playerId))"

text \<open>The path of the mover crosses the most recent segment of its own trail and no other
  segment of any tracked trail.\<close>

definition crossesOnlyMostRecent :: "CollisionEngine \<Rightarrow> string \<Rightarrow> Vector2 \<Rightarrow> bool" where
  "crossesOnlyMostRecent e playerId c =
     (2 \<le> length (ownTrail e playerId)
      \<and> segmentsIntersect (projectedPath e playerId c) (last (segments (ownTrail e playerId)))
      \<and> list_all (\<lambda>s. \<not> segmentsIntersect (projectedPath e playerId c) s)
            (butlast (segments (ownTrail e playerId)))
      \<and> list_all (\<lambda>tr. list_all (\<lambda>s. \<not> segmentsIntersect (projectedPath e playerId c) s)
                          (segments tr))
            (otherTrails e playerId))"

text \<open>Points and engines for the examples: an arena of size 500.\<close>

definition pt :: "real \<Rightarrow> real \<Rightarrow> Vector2" where
  "pt a c = \<lparr>px = a, pz = c\<rparr>"

definition emptyArena :: CollisionEngine where
  "emptyArena =
     \<lparr>arena_size = 500, trailOf = [], positionOf = [], minPointDistance = 1 / 10,
      proximityRadius = 1\<rparr>"

definition cornerTrail :: "Vector2 list" where
  "cornerTrail = [pt 0 0, pt 10 0, pt 10 10]"

text \<open>Player \<open>b\<close> has left the corner trail and player \<open>a\<close> stands at \<open>(5, -1)\<close>; or player
  \<open>a\<close> itself has drawn the corner trail and stands at its tip.\<close>

definition besideTrail :: CollisionEngine where
  "besideTrail = emptyArena\<lparr>trailOf := [(''a'', [pt 5 (- 1)]), (''b'', cornerTrail)]\<rparr>"

definition atTip :: CollisionEngine where
  "atTip = emptyArena\<lparr>trailOf := [(''a'', cornerTrail)]\<rparr>"

text \<open>The scenario of the spec: one trail, a horizontal segment from \<open>(0, 0)\<close> to \<open>(10, 0)\<close>,
  and a mover whose last recorded point is given.\<close>

definition horizontal :: "Vector2 \<Rightarrow> CollisionEngine" where
  "horizontal start = emptyArena\<lparr>trailOf := [(''a'', [start]), (''b'', [pt 0 0, pt 10 0])]\<rparr>"

section \<open>The render loop: throttles and the manager's update\<close>

lemma useFrame_sends:
  "filter isSend (snd (useFrame r t)) =
     (case playerPos t of
        None \<Rightarrow> []
      | Some pos \<Rightarrow>
          if now t - lastUpdateTime r > updateInterval
          then [GameClientUpdatePosition
                  \<lparr>pos_x = vx pos, pos_y = vy pos, pos_z = vz pos, pos_rotation = playerRotation t\<rparr>]
          else [])"
  by (simp add: useFrame_def Let_def split: option.split)

lemma useFrame_lastUpdateTime:
  "lastUpdateTime (fst (useFrame r t)) =
     (if playerPos t \<noteq> None \<and> now t - lastUpdateTime r > updateInterval
      then now t else lastUpdateTime r)"
  by (simp add: useFrame_def Let_def split: option.split)

lemma useFrame_refreshes:
  "filter isEnemyRefresh (snd (useFrame r t)) =
     (if playerPos t \<noteq> None \<and> now t - lastEnemyUpdateTime r > enemyUpdateInterval
         \<and> multiplayerManager r
      then [OnEnemyPositionsUpdate] else [])"
  by (simp add: useFrame_def Let_def split: option.split)

lemma useFrame_lastEnemyUpdateTime:
  "lastEnemyUpdateTime (fst (useFrame r t)) =
     (if playerPos t \<noteq> None \<and> now t - lastEnemyUpdateTime r > enemyUpdateInterval
      then now t else lastEnemyUpdateTime r)"
  by (simp add: useFrame_def Let_def split: option.split)

lemma useFrame_refs:
  "multiplayerManager (fst (useFrame r t)) = multiplayerManager r"
  "cameraController (fst (useFrame r t)) = cameraController r"
  by (simp_all add: useFrame_def Let_def split: option.split)

lemma useFrame_managerUpdates:
  "filter isManagerUpdate (snd (useFrame r t)) =
     (if multiplayerManager r then [MultiplayerManagerUpdate (delta t)] else [])"
  by (simp add: useFrame_def Let_def split: option.split)

lemma spacedStrict_imp_spaced: "spacedStrict d l xs \<Longrightarrow> spaced d l xs"
  by (induction xs arbitrary: l) auto

lemma spacedStrict_lower:
  "spacedStrict d l xs \<Longrightarrow> 0 \<le> d \<Longrightarrow> s \<in> set xs \<Longrightarrow> l + d < s"
proof (induction xs arbitrary: l)
  case Nil
  then show ?case by simp
next
  case (Cons a xs)
  show ?case
  proof (cases "s = a")
    case True
    with Cons.prems show ?thesis by simp
  next
    case False
    with Cons.prems have "s \<in> set xs" and "spacedStrict d a xs" by auto
    with Cons.IH [of a] Cons.prems have "a + d < s" by simp
    moreover from Cons.prems have "l < a" by simp
    ultimately show ?thesis by simp
  qed
qed

lemma spacedStrict_window:
  "spacedStrict d l xs \<Longrightarrow> 0 \<le> d \<Longrightarrow> length (filter (inWindow w d) xs) \<le> 1"
proof (induction xs arbitrary: l)
  case Nil
  then show ?case by simp
next
  case (Cons a xs)
  from Cons.prems have rest: "spacedStrict d a xs" by simp
  show ?case
  proof (cases "inWindow w d a")
    case True
    have "filter (inWindow w d) xs = []"
    proof -
      have "\<not> inWindow w d s" if "s \<in> set xs" for s
      proof -
        from spacedStrict_lower [OF rest Cons.prems(2) that] have "a + d < s" .
        with True show ?thesis by (simp add: inWindow_def)
      qed
      then show ?thesis by (simp add: filter_empty_conv)
    qed
    with True show ?thesis by simp
  next
    case False
    with Cons.IH [OF rest Cons.prems(2)] show ?thesis by simp
  qed
qed

lemma sends_spacedStrict:
  "spacedStrict updateInterval (lastUpdateTime r) (timesOf isSend (runFrames r ts))"
proof (induction ts arbitrary: r)
  case Nil
  show ?case by simp
next
  case (Cons t ts)
  show ?case
    using Cons.IH [of "fst (useFrame r t)"]
    by (auto simp add: useFrame_sends useFrame_lastUpdateTime split: option.split)
qed

lemma refreshes_spacedStrict:
  "l \<le> lastEnemyUpdateTime r \<Longrightarrow>
   spacedStrict enemyUpdateInterval l (timesOf isEnemyRefresh (runFrames r ts))"
proof (induction ts arbitrary: r l)
  case Nil
  show ?case by simp
next
  case (Cons t ts)
  let ?r' = "fst (useFrame r t)"
  show ?case
  proof (cases "playerPos t \<noteq> None \<and> now t - lastEnemyUpdateTime r > enemyUpdateInterval")
    case True
    then have clock: "lastEnemyUpdateTime ?r' = now t"
      by (simp add: useFrame_lastEnemyUpdateTime)
    from True Cons.prems have gap: "enemyUpdateInterval < now t - l" by simp
    from True have pos: "l \<le> now t" using Cons.prems by (simp add: enemyUpdateInterval_def)
    show ?thesis
    proof (cases "multiplayerManager r")
      case True
      with \<open>playerPos t \<noteq> None \<and> now t - lastEnemyUpdateTime r > enemyUpdateInterval\<close>
      have "filter isEnemyRefresh (snd (useFrame r t)) = [OnEnemyPositionsUpdate]"
        by (simp add: useFrame_refreshes)
      moreover have "spacedStrict enemyUpdateInterval (now t)
                       (timesOf isEnemyRefresh (runFrames ?r' ts))"
        using Cons.IH [of "now t" ?r'] clock by simp
      ultimately show ?thesis using gap by simp
    next
      case False
      then have "filter isEnemyRefresh (snd (useFrame r t)) = []"
        by (simp add: useFrame_refreshes)
      moreover have "spacedStrict enemyUpdateInterval l
                       (timesOf isEnemyRefresh (runFrames ?r' ts))"
        using Cons.IH [of l ?r'] clock pos by simp
      ultimately show ?thesis by simp
    qed
  next
    case False
    then have "lastEnemyUpdateTime ?r' = lastEnemyUpdateTime r"
      by (auto simp add: useFrame_lastEnemyUpdateTime)
    moreover from False have "filter isEnemyRefresh (snd (useFrame r t)) = []"
      by (auto simp add: useFrame_refreshes)
    ultimately show ?thesis using Cons.IH [of l ?r'] Cons.prems by simp
  qed
qed

lemma refreshes_depend_on_enemy_clock_only:
  "sameEnemyClock r r' \<Longrightarrow>
   timesOf isEnemyRefresh (runFrames r ts) = timesOf isEnemyRefresh (runFrames r' ts)"
proof (induction ts arbitrary: r r')
  case Nil
  show ?case by simp
next
  case (Cons t ts)
  from Cons.prems have "sameEnemyClock (fst (useFrame r t)) (fst (useFrame r' t))"
    by (simp add: sameEnemyClock_def useFrame_lastEnemyUpdateTime useFrame_refs)
  from Cons.IH [OF this] Cons.prems show ?case
    by (simp add: sameEnemyClock_def useFrame_refreshes)
qed

lemma sends_depend_on_send_clock_only:
  "sameSendClock r r' \<Longrightarrow>
   timesOf isSend (runFrames r ts) = timesOf isSend (runFrames r' ts)"
proof (induction ts arbitrary: r r')
  case Nil
  show ?case by simp
next
  case (Cons t ts)
  from Cons.prems have "sameSendClock (fst (useFrame r t)) (fst (useFrame r' t))"
    by (simp add: sameSendClock_def useFrame_lastUpdateTime)
  from Cons.IH [OF this] Cons.prems show ?case
    by (simp add: sameSendClock_def useFrame_sends split: option.split)
qed

text \<open>
  Claim C1. In every run of the render loop, each position update is sent at least 100 ms
  after the previous one (the first at least 100 ms after the initial value of
  \<open>lastUpdateTime\<close>), and so any window of 100 ms, \<open>[w, w + 100]\<close>, holds at most one
  position update.
\<close>

theorem position_updates_throttled:
  "spaced updateInterval (lastUpdateTime r) (timesOf isSend (runFrames r ts))
   \<and> length (filter (inWindow w updateInterval) (timesOf isSend (runFrames r ts))) \<le> 1"
proof
  show "spaced updateInterval (lastUpdateTime r) (timesOf isSend (runFrames r ts))"
    by (rule spacedStrict_imp_spaced) (rule sends_spacedStrict)
next
  have "0 \<le> updateInterval" by (simp add: updateInterval_def)
  with sends_spacedStrict [of r ts]
  show "length (filter (inWindow w updateInterval) (timesOf isSend (runFrames r ts))) \<le> 1"
    by (rule spacedStrict_window)
qed

text \<open>
  Claim C4. Once \<open>multiplayerManager.current\<close> is set, every frame of every run calls the
  manager's \<open>update\<close> exactly once, with that frame's \<open>delta\<close>; the frame's player position
  and the network play no part.
\<close>

theorem manager_update_once_per_frame:
  "multiplayerManager r \<Longrightarrow>
   map (\<lambda>(t, es). filter isManagerUpdate es) (runFrames r ts)
     = map (\<lambda>t. [MultiplayerManagerUpdate (delta t)]) ts"
proof (induction ts arbitrary: r)
  case Nil
  show ?case by simp
next
  case (Cons t ts)
  from Cons.prems have "multiplayerManager (fst (useFrame r t))"
    by (simp add: useFrame_refs)
  from Cons.IH [OF this] Cons.prems show ?case
    by (simp add: useFrame_managerUpdates)
qed

text \<open>
  Claim C6. In every run of the render loop, each refresh of the minimap's enemy list comes
  at least 200 ms after the previous one; the refreshes do not depend on the state of the
  broadcast clock \<open>lastUpdateTime\<close>, and the broadcasts do not depend on the state of the
  minimap clock \<open>lastEnemyUpdateTime\<close>.
\<close>

theorem enemy_refresh_throttled_independently:
  "spaced enemyUpdateInterval (lastEnemyUpdateTime r) (timesOf isEnemyRefresh (runFrames r ts))
   \<and> timesOf isEnemyRefresh (runFrames (r\<lparr>lastUpdateTime := a\<rparr>) ts)
       = timesOf isEnemyRefresh (runFrames r ts)
   \<and> timesOf isSend (runFrames (r\<lparr>lastEnemyUpdateTime := b\<rparr>) ts)
       = timesOf isSend (runFrames r ts)"
proof (intro conjI)
  show "spaced enemyUpdateInterval (lastEnemyUpdateTime r) (timesOf isEnemyRefresh (runFrames r ts))"
    by (rule spacedStrict_imp_spaced) (rule refreshes_spacedStrict, simp)
next
  have "sameEnemyClock (r\<lparr>lastUpdateTime := a\<rparr>) r" by (simp add: sameEnemyClock_def)
  then show "timesOf isEnemyRefresh (runFrames (r\<lparr>lastUpdateTime := a\<rparr>) ts)
               = timesOf isEnemyRefresh (runFrames r ts)"
    by (rule refreshes_depend_on_enemy_clock_only)
next
  have "sameSendClock (r\<lparr>lastEnemyUpdateTime := b\<rparr>) r" by (simp add: sameSendClock_def)
  then show "timesOf isSend (runFrames (r\<lparr>lastEnemyUpdateTime := b\<rparr>) ts)
               = timesOf isSend (runFrames r ts)"
    by (rule sends_depend_on_send_clock_only)
qed

text \<open>A run in which the two clocks fire in different frames.\<close>

lemma run_example:
  "timesOf isSend (runFrames mounted [frameAt 50 (Some origin), frameAt 101 (Some origin), frameAt 150 None,
      frameAt 201 (Some origin), frameAt 202 (Some origin), frameAt 300 (Some origin)]) = [101, 202]"
  "timesOf isEnemyRefresh (runFrames mounted [frameAt 50 (Some origin), frameAt 101 (Some origin), frameAt 150 None,
      frameAt 201 (Some origin), frameAt 202 (Some origin), frameAt 300 (Some origin)]) = [201]"
  by (simp_all add: mounted_def frameAt_def origin_def useFrame_def updateInterval_def enemyUpdateInterval_def Let_def)

text \<open>The theorem of C4 on a run whose second frame has no player position.\<close>

theorem manager_update_once_per_frame_witness:
  "multiplayerManager mounted \<and>
   map (\<lambda>(t, es). filter isManagerUpdate es)
       (runFrames mounted [frameAt 50 (Some origin), frameAt 150 None])
     = [[MultiplayerManagerUpdate (16 / 1000)], [MultiplayerManagerUpdate (16 / 1000)]]"
proof -
  have h: "multiplayerManager mounted" by (simp add: mounted_def)
  show ?thesis
    using h manager_update_once_per_frame [OF h, of "[frameAt 50 (Some origin), frameAt 150 None]"]
    by (simp add: frameAt_def)
qed

section \<open>The start menu and the start of the game\<close>

lemma length_trim: "length (trim s) \<le> length s"
proof -
  have "length (trim s) \<le> length (dropWhile isWhiteSpace s)"
    unfolding trim_def using length_dropWhile_le [of isWhiteSpace "rev (dropWhile isWhiteSpace s)"]
    by simp
  also have "\<dots> \<le> length s" by (rule length_dropWhile_le)
  finally show ?thesis .
qed

text \<open>
  Claim C9. For every text of the input that respects the input's 15-character limit, submitting
  the form either makes no call of \<open>onStart\<close>, which happens exactly when the trimmed text is
  empty, or passes on the trimmed text, which is then non-empty and at most 15 code units long.
\<close>

theorem submitted_name_nonempty_bounded:
  assumes "withinMaxLength (menu_playerName m)"
  shows "case handleSubmit m of
           None \<Rightarrow> trim (menu_playerName m) = []
         | Some n \<Rightarrow> n = trim (menu_playerName m) \<and> n \<noteq> [] \<and> length n \<le> 15"
proof (cases "trim (menu_playerName m) = []")
  case True
  then show ?thesis by (simp add: handleSubmit_def)
next
  case False
  have "length (trim (menu_playerName m)) \<le> length (menu_playerName m)" by (rule length_trim)
  also from assms have "\<dots> \<le> 15" by (simp add: withinMaxLength_def maxLength_def)
  finally show ?thesis using False by (simp add: handleSubmit_def)
qed

lemma trim_example: "trim [0x20, 0x46, 0x6C, 0x79, 0x6E, 0x6E, 0x3000, 0x09] = flynn"
  by (simp add: trim_def isWhiteSpace_def whiteSpace_def flynn_def)

lemma trim_blank: "trim [0x20, 0x09, 0x3000] = []"
  by (simp add: trim_def isWhiteSpace_def whiteSpace_def)

text \<open>
  The theorem of C9 on a padded name and on a blank input.
\<close>

theorem submitted_name_nonempty_bounded_witness:
  "withinMaxLength [0x20, 0x46, 0x6C, 0x79, 0x6E, 0x6E, 0x3000, 0x09]
   \<and> handleSubmit (onChange [0x20, 0x46, 0x6C, 0x79, 0x6E, 0x6E, 0x3000, 0x09] \<lparr>menu_playerName = []\<rparr>)
       = Some flynn
   \<and> flynn \<noteq> [] \<and> length flynn \<le> 15
   \<and> withinMaxLength [0x20, 0x09, 0x3000]
   \<and> handleSubmit (onChange [0x20, 0x09, 0x3000] \<lparr>menu_playerName = []\<rparr>) = None"
proof -
  let ?v = "[0x20, 0x46, 0x6C, 0x79, 0x6E, 0x6E, 0x3000, 0x09] :: jsstring"
  let ?b = "[0x20, 0x09, 0x3000] :: jsstring"
  have h1: "withinMaxLength (menu_playerName (onChange ?v \<lparr>menu_playerName = []\<rparr>))"
    by (simp add: withinMaxLength_def maxLength_def onChange_def)
  have h2: "withinMaxLength (menu_playerName (onChange ?b \<lparr>menu_playerName = []\<rparr>))"
    by (simp add: withinMaxLength_def maxLength_def onChange_def)
  have s1: "handleSubmit (onChange ?v \<lparr>menu_playerName = []\<rparr>) = Some flynn"
    by (simp add: handleSubmit_def onChange_def trim_example) (simp add: flynn_def)
  have s2: "handleSubmit (onChange ?b \<lparr>menu_playerName = []\<rparr>) = None"
    by (simp add: handleSubmit_def onChange_def trim_blank)
  from submitted_name_nonempty_bounded [OF h1] submitted_name_nonempty_bounded [OF h2] h1 h2 s1 s2
  show ?thesis by (simp add: onChange_def)
qed

text \<open>
  The bound comes from the input element alone: \<open>handleSubmit\<close> passes a longer text on as it is.
\<close>

lemma handleSubmit_does_not_truncate:
  "handleSubmit \<lparr>menu_playerName = replicate 16 0x41\<rparr> = Some (replicate 16 0x41)"
  by (simp add: handleSubmit_def trim_def isWhiteSpace_def whiteSpace_def)

text \<open>
  Claim C5. When \<open>connect(name)\<close> rejects, \<open>handleGameStart\<close> receives the error (it is logged
  to the console) and the game does not start: \<open>gameStarted\<close>, the \<open>TronGame\<close> ref, the
  arena size and the player name are what they were before the call.
\<close>

theorem connect_failure_does_not_start_game:
  assumes "connect w name = Inl err"
  shows "gameStarted (handleGameStart w s name) = gameStarted s
         \<and> game (handleGameStart w s name) = game s
         \<and> arenaSize (handleGameStart w s name) = arenaSize s
         \<and> playerName (handleGameStart w s name) = playerName s
         \<and> consoleErrors (handleGameStart w s name) = consoleErrors s @ [err]"
  using assms by (simp add: handleGameStart_def)

text \<open>
  The theorem of C5 on the initial scene and a server that refuses the connection: the game
  is not started and no \<open>TronGame\<close> exists.
\<close>

theorem connect_failure_does_not_start_game_witness:
  "connect refusing flynn = Inl (JsError ''connection refused'')
   \<and> \<not> gameStarted (handleGameStart refusing initialGameScene flynn)
   \<and> game (handleGameStart refusing initialGameScene flynn) = None
   \<and> arenaSize (handleGameStart refusing initialGameScene flynn) = 500
   \<and> playerName (handleGameStart refusing initialGameScene flynn) = None
   \<and> consoleErrors (handleGameStart refusing initialGameScene flynn) = [JsError ''connection refused'']"
proof -
  have h: "connect refusing flynn = Inl (JsError ''connection refused'')"
    by (simp add: refusing_def)
  from connect_failure_does_not_start_game [OF h, of initialGameScene] h
  show ?thesis by (simp add: initialGameScene_def)
qed

text \<open>
  Conversely, a call that starts the game had a successful connection.
\<close>

lemma game_started_only_after_connect:
  "gameStarted (handleGameStart w s name) \<Longrightarrow> \<not> gameStarted s \<Longrightarrow> \<exists>pid. connect w name = Inr pid"
  by (cases "connect w name") (simp_all add: handleGameStart_def)

lemma connect_success_starts_game:
  "gameStarted (handleGameStart accepting initialGameScene flynn)
   \<and> game (handleGameStart accepting initialGameScene flynn) = Some \<lparr>gamePlayerName = flynn, gameArenaSize = 500\<rparr>"
  by (simp add: handleGameStart_def accepting_def initialGameScene_def Let_def)

section \<open>The resolution scale of the PerformanceManager\<close>

lemma applyResolutionScale_scale [simp]:
  "resolutionScale (applyResolutionScale b pm) = resolutionScale pm"
  by (simp add: applyResolutionScale_def)

lemma inRange_reduce:
  assumes "inRange s" and "0 \<le> r" and "r \<le> 1"
  shows "inRange (js_max (js_mul s (Fin r)) MIN_RESOLUTION_SCALE)"
proof -
  from assms(1) obtain a where s: "s = Fin a" and a: "5 / 10 \<le> a" "a \<le> 1"
    by (cases s) auto
  from a assms(2,3) have "a * r \<le> 1" by (simp add: mult_le_one)
  then show ?thesis by (simp add: s js_max_def MIN_RESOLUTION_SCALE_def)
qed

lemma inRange_increase:
  assumes "inRange s"
  shows "inRange (js_min (js_mul s (Fin (102 / 100))) (Fin 1))"
proof -
  from assms obtain a where s: "s = Fin a" and a: "5 / 10 \<le> a" "a \<le> 1"
    by (cases s) auto
  then show ?thesis by (simp add: s js_min_def)
qed

lemma inRange_clamp:
  assumes "scale \<noteq> NaN"
  shows "inRange (js_max MIN_RESOLUTION_SCALE (js_min (Fin 1) scale))"
  using assms by (cases scale) (auto simp add: js_max_def js_min_def MIN_RESOLUTION_SCALE_def)

text \<open>
  Every branch of \<open>update\<close> keeps the resolution scale within \<open>[0.5, 1.0]\<close>.
\<close>

lemma update_inRange:
  assumes "inRange (resolutionScale pm)"
  shows "inRange (resolutionScale (update b pm))"
proof -
  have r1: "inRange (js_max (js_mul (resolutionScale pm) (Fin (85 / 100))) MIN_RESOLUTION_SCALE)"
    by (rule inRange_reduce [OF assms]) simp_all
  have r2: "inRange (js_max (js_mul (resolutionScale pm) (Fin (95 / 100))) MIN_RESOLUTION_SCALE)"
    by (rule inRange_reduce [OF assms]) simp_all
  have r3: "inRange (js_min (js_mul (resolutionScale pm) (Fin (102 / 100))) (Fin 1))"
    by (rule inRange_increase [OF assms])
  show ?thesis
    using assms r1 r2 r3 by (simp add: update_def Let_def)
qed

lemma setEnabled_inRange:
  "inRange (resolutionScale pm) \<Longrightarrow> inRange (resolutionScale (setEnabled b enabled pm))"
  by (simp add: setEnabled_def Let_def)

lemma setResolutionScale_inRange:
  "scale \<noteq> NaN \<Longrightarrow> inRange (resolutionScale (setResolutionScale b scale pm))"
  by (simp add: setResolutionScale_def inRange_clamp)

lemma pmStep_inRange:
  "inRange (resolutionScale pm) \<Longrightarrow> scaleIsNumber c \<Longrightarrow> inRange (resolutionScale (pmStep pm c))"
proof (cases c)
  case (Pair b call)
  assume "inRange (resolutionScale pm)" and "scaleIsNumber c"
  with Pair show ?thesis
    by (cases call)
       (simp_all add: update_inRange setEnabled_inRange setResolutionScale_inRange setTargetFps_def)
qed

text \<open>
  Starting within \<open>[0.5, 1.0]\<close>, the resolution scale stays there through every sequence of
  calls in which no \<open>setResolutionScale\<close> is given NaN.
\<close>

lemma pmRun_inRange:
  "inRange (resolutionScale pm) \<Longrightarrow> list_all scaleIsNumber calls \<Longrightarrow>
   inRange (resolutionScale (pmRun pm calls))"
  unfolding pmRun_def
proof (induction calls arbitrary: pm)
  case Nil
  then show ?case by simp
next
  case (Cons c calls)
  from Cons.prems have "inRange (resolutionScale (pmStep pm c))" by (simp add: pmStep_inRange)
  with Cons.IH [of "pmStep pm c"] Cons.prems show ?case by simp
qed

lemma newPerformanceManager_inRange: "inRange (resolutionScale newPerformanceManager)"
  by (simp add: newPerformanceManager_def)

text \<open>
  Claim C10. The resolution scale does not always stay within \<open>[0.5, 1.0]\<close>: on a new
  manager, \<open>setResolutionScale(NaN)\<close> stores NaN, since \<open>Math.min(1.0, NaN)\<close> and then
  \<open>Math.max(0.5, NaN)\<close> are NaN, and hands NaN to the renderer as its pixel ratio.
\<close>

theorem setResolutionScale_NaN_leaves_range:
  "resolutionScale (setResolutionScale (browserAt 5000) NaN newPerformanceManager) = NaN
   \<and> \<not> inRange (resolutionScale (pmRun newPerformanceManager [(browserAt 5000, SetResolutionScale NaN)]))
   \<and> setPixelRatioCalls (setResolutionScale (browserAt 5000) NaN newPerformanceManager) = [NaN]"
  by (simp add: setResolutionScale_def pmRun_def js_max_def js_min_def applyResolutionScale_def
      browserAt_def newPerformanceManager_def pixelRatio_def)

text \<open>
  A decrease: ten frames per second on average take the scale from 1 to 0.85.
\<close>

lemma update_example:
  "resolutionScale (update (browserAt 3000) (newPerformanceManager\<lparr>fpsHistory := replicate 20 (Fin 10)\<rparr>))
     = Fin (85 / 100)"
  by (simp add: update_def Let_def newPerformanceManager_def browserAt_def FPS_HISTORY_SIZE_def
      MIN_CHANGE_INTERVAL_def average_def sliceLast_def js_max_def js_gt_def js_sub_def
      MIN_RESOLUTION_SCALE_def applyResolutionScale_def pixelRatio_def numeral_eq_Suc)

section \<open>The registry of remote players\<close>

subsection \<open>What each manager operation does to the registry\<close>

lemma addPlayer_localPlayerId [simp]: "localPlayerId (addPlayer i ip m) = localPlayerId m"
  by (simp add: addPlayer_def split: option.split)

lemma removePlayer_localPlayerId [simp]: "localPlayerId (removePlayer i m) = localPlayerId m"
  by (simp add: removePlayer_def)

lemma updatePlayerPosition_localPlayerId [simp]:
  "localPlayerId (updatePlayerPosition i p rot m) = localPlayerId m"
  by (simp add: updatePlayerPosition_def split: option.split)

lemma registered_addPlayer_local:
  "localPlayerId m = Some l \<Longrightarrow> l \<notin> registered m \<Longrightarrow> l \<notin> registered (addPlayer i ip m)"
  by (auto simp add: addPlayer_def registered_def AList.dom_update split: option.splits)

lemma registered_updatePlayerPosition_local:
  "localPlayerId m = Some l \<Longrightarrow> l \<notin> registered m \<Longrightarrow>
   l \<notin> registered (updatePlayerPosition i p rot m)"
  by (auto simp add: updatePlayerPosition_def registered_def AList.dom_update split: option.splits)

lemma registered_removePlayer_local:
  "l \<notin> registered m \<Longrightarrow> l \<notin> registered (removePlayer i m)"
  using AList.dom_delete_subset [of i "players m"]
  by (auto simp add: removePlayer_def registered_def)

lemma gameStateEntry_localPlayerId [simp]:
  "localPlayerId (gameStateEntry cid m entry) = localPlayerId m"
  by (simp add: gameStateEntry_def)

lemma onGameState_localPlayerId [simp]: "localPlayerId (onGameState cid m entries) = localPlayerId m"
  unfolding onGameState_def by (induction entries arbitrary: m) simp_all

lemma onGameState_local:
  "localPlayerId m = Some l \<Longrightarrow> l \<notin> registered m \<Longrightarrow> l \<notin> registered (onGameState cid m entries)"
  unfolding onGameState_def
proof (induction entries arbitrary: m)
  case Nil
  then show ?case by simp
next
  case (Cons entry entries)
  have "l \<notin> registered (gameStateEntry cid m entry)"
    using Cons.prems by (simp add: gameStateEntry_def registered_addPlayer_local)
  moreover have "localPlayerId (gameStateEntry cid m entry) = Some l"
    using Cons.prems by simp
  ultimately show ?case using Cons.IH [of "gameStateEntry cid m entry"] by simp
qed

lemma handleMessage_localPlayerId [simp]: "localPlayerId (handleMessage m msg) = localPlayerId m"
proof (cases msg)
  case (Pair cid nm)
  then show ?thesis
    by (cases nm) (simp_all add: onPlayerJoined_def onPlayerLeft_def onPlayerMoved_def)
qed

lemma handleMessage_local:
  assumes "localPlayerId m = Some l" and "l \<notin> registered m"
  shows "l \<notin> registered (handleMessage m msg)"
proof (cases msg)
  case (Pair cid nm)
  with assms show ?thesis
    by (cases nm)
       (simp_all add: onPlayerJoined_def onPlayerLeft_def onPlayerMoved_def
          registered_addPlayer_local registered_removePlayer_local
          registered_updatePlayerPosition_local onGameState_local)
qed

lemma runMessages_local:
  "localPlayerId m = Some l \<Longrightarrow> l \<notin> registered m \<Longrightarrow> l \<notin> registered (runMessages m msgs)"
  unfolding runMessages_def
proof (induction msgs arbitrary: m)
  case Nil
  then show ?case by simp
next
  case (Cons msg msgs)
  from Cons.prems have "l \<notin> registered (handleMessage m msg)" by (rule handleMessage_local)
  moreover from Cons.prems have "localPlayerId (handleMessage m msg) = Some l" by simp
  ultimately show ?case using Cons.IH [of "handleMessage m msg"] by simp
qed

lemma getEnemyPositions_ids: "fst ` set (getEnemyPositions m) = registered m"
  by (force simp add: getEnemyPositions_def registered_def)

text \<open>
  Claim C3. After the effect has created the manager and called \<open>setLocalPlayerId\<close> with the
  local player's id, that id is not in the registry after any sequence of \<open>player_joined\<close>,
  \<open>player_left\<close>, \<open>player_moved\<close> and \<open>game_state\<close> messages, whatever ids they carry, and so
  it is not among the ids of \<open>getEnemyPositions()\<close>.
\<close>

theorem local_id_never_registered:
  "localIdOf clientId \<notin> registered (runMessages (mountManager clientId) msgs)
   \<and> localIdOf clientId \<notin> fst ` set (getEnemyPositions (runMessages (mountManager clientId) msgs))"
proof -
  have "localPlayerId (mountManager clientId) = Some (localIdOf clientId)"
    by (simp add: mountManager_def setLocalPlayerId_def)
  moreover have "localIdOf clientId \<notin> registered (mountManager clientId)"
    by (simp add: mountManager_def setLocalPlayerId_def newMultiplayerManager_def registered_def)
  ultimately have "localIdOf clientId \<notin> registered (runMessages (mountManager clientId) msgs)"
    by (rule runMessages_local)
  then show ?thesis by (simp add: getEnemyPositions_ids)
qed

text \<open>
  Messages that echo the local id \<open>me\<close>: only the other two players are registered.
\<close>

lemma echo_example:
  "map fst (getEnemyPositions (runMessages (mountManager (Some ''me''))
      [(Some ''me'', PlayerJoined ''me''),
       (Some ''me'', PlayerMoved ''me'' (wireAt 1 2)),
       (Some ''me'', PlayerMoved ''you'' (wireAt 3 4)),
       (Some ''me'', GameState [(''me'', \<lparr>entryPosition = Some (wireAt 1 2)\<rparr>),
                               (''her'', \<lparr>entryPosition = Some (wireAt 5 6)\<rparr>)])]))
   = [''you'', ''her'']"
  by (simp add: runMessages_def mountManager_def localIdOf_def setLocalPlayerId_def
      newMultiplayerManager_def onPlayerJoined_def onPlayerMoved_def onGameState_def
      gameStateEntry_def addPlayer_def updatePlayerPosition_def getEnemyPositions_def)

subsection \<open>The snapshot\<close>

lemma addPlayer_other:
  "j \<noteq> i \<Longrightarrow> map_of (players (addPlayer j ip m)) i = map_of (players m) i"
  by (simp add: addPlayer_def AList.update_conv' split: option.split)

lemma gameStateEntry_other:
  "fst entry \<noteq> i \<Longrightarrow> map_of (players (gameStateEntry cid m entry)) i = map_of (players m) i"
  by (simp add: gameStateEntry_def addPlayer_other)

lemma onGameState_other:
  "i \<notin> fst ` set entries \<Longrightarrow> map_of (players (onGameState cid m entries)) i = map_of (players m) i"
  unfolding onGameState_def
proof (induction entries arbitrary: m)
  case Nil
  show ?case by simp
next
  case (Cons entry entries)
  from Cons.prems have "fst entry \<noteq> i" and "i \<notin> fst ` set entries" by auto
  with Cons.IH [of "gameStateEntry cid m entry"] show ?case
    by (simp add: gameStateEntry_other)
qed

lemma addPlayer_position:
  assumes "localPlayerId m \<noteq> Some i"
  shows "\<exists>rp. map_of (players (addPlayer i (Some p) m)) i = Some rp
              \<and> targetPosition rp = positionVector p"
  using assms
  by (simp add: addPlayer_def AList.update_conv' newRemotePlayer_def split: option.split)

text \<open>
  Claim C2, as amended. For every entry of the snapshot that carries a position and whose id is
  not the local player's id (neither the id the game client reports nor the id the manager
  excludes), handling \<open>game_state\<close> leaves the player in the registry with its snapshot
  position as target. The keys of \<open>Object.entries\<close> are distinct.
\<close>

theorem game_state_adds_positioned_entries:
  assumes "distinct (map fst entries)"
    and "(i, e) \<in> set entries"
    and "entryPosition e = Some p"
    and "Some i \<noteq> clientId"
    and "localPlayerId m \<noteq> Some i"
  shows "\<exists>rp. map_of (players (onGameState clientId m entries)) i = Some rp
              \<and> targetPosition rp = positionVector p"
  using assms(1,2,5)
proof (induction entries arbitrary: m)
  case Nil
  then show ?case by simp
next
  case (Cons entry entries)
  have unfold: "onGameState clientId m (entry # entries)
                  = onGameState clientId (gameStateEntry clientId m entry) entries"
    by (simp add: onGameState_def)
  show ?case
  proof (cases "entry = (i, e)")
    case True
    with Cons.prems(1) have "i \<notin> fst ` set entries" by simp
    then have "map_of (players (onGameState clientId (gameStateEntry clientId m entry) entries)) i
                 = map_of (players (gameStateEntry clientId m entry)) i"
      by (rule onGameState_other)
    moreover from True assms(3,4)
    have "gameStateEntry clientId m entry = addPlayer i (Some p) m"
      by (simp add: gameStateEntry_def)
    ultimately show ?thesis
      using addPlayer_position [OF Cons.prems(3), of p] unfold by simp
  next
    case False
    with Cons.prems have "(i, e) \<in> set entries" and "distinct (map fst entries)" by auto
    moreover from Cons.prems(3) have "localPlayerId (gameStateEntry clientId m entry) \<noteq> Some i"
      by simp
    ultimately show ?thesis using Cons.IH [of "gameStateEntry clientId m entry"] unfold by simp
  qed
qed

text \<open>
  The amended claim on a snapshot with the local player and one remote player.
\<close>

theorem game_state_adds_positioned_entries_witness:
  "distinct (map fst [(''me'', \<lparr>entryPosition = Some (wireAt 1 2)\<rparr>), (''her'', \<lparr>entryPosition = Some (wireAt 5 6)\<rparr>)])
   \<and> (''her'', \<lparr>entryPosition = Some (wireAt 5 6)\<rparr>)
        \<in> set [(''me'', \<lparr>entryPosition = Some (wireAt 1 2)\<rparr>), (''her'', \<lparr>entryPosition = Some (wireAt 5 6)\<rparr>)]
   \<and> Some ''her'' \<noteq> Some ''me''
   \<and> localPlayerId (mountManager (Some ''me'')) \<noteq> Some ''her''
   \<and> (\<exists>rp. map_of (players (onGameState (Some ''me'') (mountManager (Some ''me''))
                 [(''me'', \<lparr>entryPosition = Some (wireAt 1 2)\<rparr>), (''her'', \<lparr>entryPosition = Some (wireAt 5 6)\<rparr>)]))
               ''her'' = Some rp
            \<and> targetPosition rp = \<lparr>vx = 5, vy = 0, vz = 6\<rparr>)"
proof -
  let ?entries = "[(''me'', \<lparr>entryPosition = Some (wireAt 1 2)\<rparr>), (''her'', \<lparr>entryPosition = Some (wireAt 5 6)\<rparr>)]"
  have h1: "distinct (map fst ?entries)" by simp
  have h2: "(''her'', \<lparr>entryPosition = Some (wireAt 5 6)\<rparr>) \<in> set ?entries" by simp
  have h3: "entryPosition \<lparr>entryPosition = Some (wireAt 5 6)\<rparr> = Some (wireAt 5 6)" by simp
  have h4: "Some ''her'' \<noteq> Some ''me''" by simp
  have h5: "localPlayerId (mountManager (Some ''me'')) \<noteq> Some ''her''"
    by (simp add: mountManager_def setLocalPlayerId_def localIdOf_def)
  have v: "positionVector (wireAt 5 6) = \<lparr>vx = 5, vy = 0, vz = 6\<rparr>"
    by (simp add: positionVector_def wireAt_def)
  from game_state_adds_positioned_entries [OF h1 h2 h3 h4 h5] h1 h2 h4 h5 v
  show ?thesis by simp
qed

text \<open>
  Claim C2 as stated fails: an entry of another player that carries no position is not added
  by \<open>game_state\<close>, while \<open>player_joined\<close> for the same id adds the player.
\<close>

theorem game_state_skips_entry_without_position:
  "Some ''her'' \<noteq> Some ''me''
   \<and> map_of (players (onGameState (Some ''me'') (mountManager (Some ''me''))
                [(''her'', \<lparr>entryPosition = None\<rparr>)])) ''her'' = None
   \<and> map_of (players (onPlayerJoined (mountManager (Some ''me'')) ''her'')) ''her''
       = Some (newRemotePlayer None)"
  by (simp add: onGameState_def gameStateEntry_def onPlayerJoined_def addPlayer_def mountManager_def
      setLocalPlayerId_def localIdOf_def newMultiplayerManager_def)

section \<open>Collisions with the boundary and with trails\<close>

text \<open>
  Claim C7. For every arena and every candidate position whose x or z coordinate has an
  absolute value of at least half the arena's size, \<open>checkCollision\<close> returns true; the
  test includes the value \<open>size/2\<close> itself.
\<close>

theorem boundary_is_collision:
  assumes "\<bar>px c\<bar> \<ge> arena_size e / 2 \<or> \<bar>pz c\<bar> \<ge> arena_size e / 2"
  shows "checkCollision e playerId c"
  using assms by (simp add: checkCollision_def hitsBoundary_def)

text \<open>
  The theorem of C7 in the arena of size 500, at 250 exactly and beyond it.
\<close>

theorem boundary_is_collision_witness:
  "\<bar>px (pt 250 0)\<bar> \<ge> arena_size emptyArena / 2
   \<and> checkCollision emptyArena ''a'' (pt 250 0)
   \<and> \<bar>pz (pt 0 (- 251))\<bar> \<ge> arena_size emptyArena / 2
   \<and> checkCollision emptyArena ''a'' (pt 0 (- 251))"
proof -
  have h1: "\<bar>px (pt 250 0)\<bar> \<ge> arena_size emptyArena / 2 \<or> \<bar>pz (pt 250 0)\<bar> \<ge> arena_size emptyArena / 2"
    by (simp add: pt_def emptyArena_def)
  have h2: "\<bar>px (pt 0 (- 251))\<bar> \<ge> arena_size emptyArena / 2 \<or> \<bar>pz (pt 0 (- 251))\<bar> \<ge> arena_size emptyArena / 2"
    by (simp add: pt_def emptyArena_def)
  from boundary_is_collision [OF h1, of "''a''"] boundary_is_collision [OF h2, of "''a''"]
  show ?thesis by (simp add: pt_def emptyArena_def)
qed

text \<open>
  Just inside the boundary of an empty arena there is no collision.
\<close>

lemma inside_empty_arena_no_collision:
  "\<not> checkCollision emptyArena ''a'' (pt 249 (- 249))"
  by (simp add: checkCollision_def hitsBoundary_def hitsOwnTrail_def hitsOtherTrail_def
      hitsPlayer_def ownTrail_def otherTrails_def otherPositions_def emptyArena_def pt_def)

lemma hitsBoundary_iff:
  "hitsBoundary e c \<longleftrightarrow> \<not> (- (arena_size e / 2) < px c \<and> px c < arena_size e / 2
                              \<and> - (arena_size e / 2) < pz c \<and> pz c < arena_size e / 2)"
  by (auto simp add: hitsBoundary_def abs_le_iff abs_if)

text \<open>
  Claim C8. For every tracked trail with at least 2 points, a candidate whose projected path
  crosses a segment of it other than the most recent one is reported as a collision. When the
  path crosses the most recent segment of the mover's own trail and no other segment,
  \<open>checkCollision\<close> reports nothing for the trails: it returns true only if the boundary or
  another player is hit.
\<close>

theorem old_segment_collides_newest_own_does_not:
  "(tracked e playerId tr \<and> 2 \<le> length tr
      \<and> list_ex (segmentsIntersect (projectedPath e playerId c)) (butlast (segments tr))
     \<longrightarrow> checkCollision e playerId c)
   \<and> (crossesOnlyMostRecent e playerId c
     \<longrightarrow> checkCollision e playerId c = (hitsBoundary e c \<or> hitsPlayer e playerId c))"
proof (intro conjI impI)
  assume a: "tracked e playerId tr \<and> 2 \<le> length tr
      \<and> list_ex (segmentsIntersect (projectedPath e playerId c)) (butlast (segments tr))"
  then obtain s where s: "s \<in> set (butlast (segments tr))"
      and hit: "segmentsIntersect (projectedPath e playerId c) s"
    by (auto simp add: list_ex_iff)
  from a have "tr = ownTrail e playerId \<or> tr \<in> set (otherTrails e playerId)"
    by (simp add: tracked_def)
  then show "checkCollision e playerId c"
  proof
    assume "tr = ownTrail e playerId"
    with s hit have "hitsOwnTrail e playerId c"
      by (auto simp add: hitsOwnTrail_def list_ex_iff)
    then show ?thesis by (simp add: checkCollision_def)
  next
    assume other: "tr \<in> set (otherTrails e playerId)"
    from s have "s \<in> set (segments tr)" by (rule in_set_butlastD)
    with other hit have "hitsOtherTrail e playerId c"
      by (auto simp add: hitsOtherTrail_def list_ex_iff)
    then show ?thesis by (simp add: checkCollision_def)
  qed
next
  assume "crossesOnlyMostRecent e playerId c"
  then show "checkCollision e playerId c = (hitsBoundary e c \<or> hitsPlayer e playerId c)"
    by (auto simp add: checkCollision_def crossesOnlyMostRecent_def hitsOwnTrail_def
        hitsOtherTrail_def list_ex_iff list_all_iff)
qed


lemmas engine_eval =
  checkCollision_def hitsBoundary_def hitsOwnTrail_def hitsOtherTrail_def hitsPlayer_def
  ownTrail_def otherTrails_def otherPositions_def projectedPath_def segmentsIntersect_def
  orientation_def onSegment_def opposite_def crossesOnlyMostRecent_def tracked_def
  emptyArena_def besideTrail_def atTip_def horizontal_def cornerTrail_def pt_def Let_def

text \<open>
  The theorem of C8 on a mover that crosses the older segment of another player's corner
  trail, and on a mover that leaves the tip of its own corner trail.
\<close>

theorem old_segment_collides_newest_own_does_not_witness:
  "tracked besideTrail ''a'' cornerTrail \<and> 2 \<le> length cornerTrail
   \<and> list_ex (segmentsIntersect (projectedPath besideTrail ''a'' (pt 5 1))) (butlast (segments cornerTrail))
   \<and> checkCollision besideTrail ''a'' (pt 5 1)
   \<and> crossesOnlyMostRecent atTip ''a'' (pt 10 12)
   \<and> \<not> hitsBoundary atTip (pt 10 12) \<and> \<not> hitsPlayer atTip ''a'' (pt 10 12)
   \<and> \<not> checkCollision atTip ''a'' (pt 10 12)"
proof -
  have h1: "tracked besideTrail ''a'' cornerTrail \<and> 2 \<le> length cornerTrail
   \<and> list_ex (segmentsIntersect (projectedPath besideTrail ''a'' (pt 5 1))) (butlast (segments cornerTrail))"
    by (simp add: engine_eval)
  have h2: "crossesOnlyMostRecent atTip ''a'' (pt 10 12)
   \<and> \<not> hitsBoundary atTip (pt 10 12) \<and> \<not> hitsPlayer atTip ''a'' (pt 10 12)"
    by (simp add: engine_eval)
  from old_segment_collides_newest_own_does_not [of besideTrail "''a''" cornerTrail "pt 5 1"]
       old_segment_collides_newest_own_does_not [of atTip "''a''" cornerTrail "pt 10 12"]
       h1 h2
  show ?thesis by simp
qed

text \<open>
  The scenarios of the spec.
\<close>

lemma spec_scenario_crossing: "checkCollision (horizontal (pt 5 (- 1))) ''a'' (pt 5 1)"
  by (simp add: engine_eval)

lemma spec_scenario_parallel: "\<not> checkCollision (horizontal (pt 5 5)) ''a'' (pt 5 15)"
  by (simp add: engine_eval)

lemma spec_scenario_boundary: "checkCollision (horizontal (pt 250 0)) ''a'' (pt 251 0)"
  by (simp add: engine_eval)

end
